theory Spec2Isabelle
  imports Main "HOL-Library.Word" "HOL-Library.AList"
begin

section \<open>Confirmation prompts (internal/ui/components/confirm.go)\<close>

text \<open>
  A \<open>tea.Msg\<close> is an interface value. \<open>Update\<close> only distinguishes key messages,
  which it reads through \<open>msg.String()\<close>, from messages of any other type; a key
  message is therefore represented by that string.
\<close>

datatype Msg = KeyMsg string | OtherMsg

text \<open>A \<open>tea.Cmd\<close> is either \<open>nil\<close> (\<open>None\<close>) or \<open>tea.Quit\<close>.\<close>

datatype Cmd = Quit

record ConfirmModel =
  question :: string
  answer :: bool
  answered :: bool

record ConfirmDefaultModel = ConfirmModel +
  defaultYes :: bool

definition NewConfirm :: "string \<Rightarrow> ConfirmModel" where
  "NewConfirm q = \<lparr>question = q, answer = False, answered = False\<rparr>"

text \<open>\<open>ConfirmModel.Update\<close>: value receiver, the updated copy is returned.\<close>

fun Update :: "ConfirmModel \<Rightarrow> Msg \<Rightarrow> ConfirmModel \<times> Cmd option" where
  "Update m (KeyMsg s) =
     (if s = ''y'' \<or> s = ''Y'' then (m\<lparr>answer := True, answered := True\<rparr>, Some Quit)
      else if s = ''n'' \<or> s = ''N'' then (m\<lparr>answer := False, answered := True\<rparr>, Some Quit)
      else if s = ''ctrl+c'' \<or> s = ''esc'' then (m\<lparr>answer := False, answered := True\<rparr>, Some Quit)
      else (m, None))"
| "Update m OtherMsg = (m, None)"

text \<open>
  \<open>ConfirmDefaultModel.Update\<close>: pointer receiver; the model is mutated in place and
  returned, so the result is the new content of \<open>*m\<close>.
\<close>

fun UpdateDefault :: "ConfirmDefaultModel \<Rightarrow> Msg \<Rightarrow> ConfirmDefaultModel \<times> Cmd option" where
  "UpdateDefault m (KeyMsg s) =
     (if s = ''y'' \<or> s = ''Y'' then (m\<lparr>answer := True, answered := True\<rparr>, Some Quit)
      else if s = ''n'' \<or> s = ''N'' then (m\<lparr>answer := False, answered := True\<rparr>, Some Quit)
      else if s = ''enter'' then (m\<lparr>answer := defaultYes m, answered := True\<rparr>, Some Quit)
      else if s = ''ctrl+c'' \<or> s = ''esc'' then (m\<lparr>answer := False, answered := True\<rparr>, Some Quit)
      else (m, None))"
| "UpdateDefault m OtherMsg = (m, None)"

text \<open>
  \<open>confirmNonInteractive\<close> prints the prompt and calls \<open>fmt.Scanln(&response)\<close>.
  The outcome of that library call is the input of the model: \<open>Inl e\<close> when it
  returns an error, \<open>Inr s\<close> when it stored the string \<open>s\<close> in \<open>response\<close>.
  The result is the text printed on standard output and the returned boolean.
\<close>

type_synonym scan_result = "string + string"

definition confirmNonInteractive :: "string \<Rightarrow> bool \<Rightarrow> scan_result \<Rightarrow> string \<times> bool" where
  "confirmNonInteractive q dflt scan =
     (let suffix = (if dflt then ''(Y/n)'' else ''(y/N)'');
          printed = q @ '' '' @ suffix @ '' ''
      in case scan of
           Inl err \<Rightarrow> (printed, dflt)
         | Inr response \<Rightarrow>
             (if response \<in> set [''y'', ''Y'', ''yes'', ''Yes'', ''YES''] then (printed, True)
              else if response \<in> set [''n'', ''N'', ''no'', ''No'', ''NO''] then (printed, False)
              else (printed, dflt)))"

section \<open>Go values held in \<open>interface{}\<close>\<close>

text \<open>
  The handlers build and inspect \<open>map[string]interface{}\<close> values. The dynamic
  types that occur are \<open>nil\<close>, \<open>bool\<close>, \<open>int\<close>, \<open>float64\<close> (numbers decoded by
  \<open>json.Unmarshal\<close>; only the bit pattern is kept, no code path reads it),
  \<open>string\<close>, \<open>[]interface{}\<close> and \<open>map[string]interface{}\<close>. A nil slice is kept
  apart from an empty one: both have length 0, but \<open>var models []interface{}\<close>
  is nil until the first \<open>append\<close>. A map is an association list read through
  \<open>map_of\<close>; the release targets are 64-bit, where \<open>int(time.Now().Unix())\<close>
  keeps the value, so \<open>int\<close> values are unbounded integers here.
\<close>

datatype iface =
    GNil
  | GBool bool
  | GInt int
  | GFloat "64 word"
  | GString string
  | GSlice "iface list"
  | GNilSlice
  | GMap "(string \<times> iface) list"

type_synonym gomap = "(string \<times> iface) list"

text \<open>\<open>m[k]\<close>: the zero value (a nil interface) when the key is absent.\<close>

definition index :: "gomap \<Rightarrow> string \<Rightarrow> iface" where
  "index m k = (case map_of m k of None \<Rightarrow> GNil | Some v \<Rightarrow> v)"

text \<open>The type assertions \<open>v.([]interface{})\<close>, \<open>v.(map[string]interface{})\<close>, \<open>v.(string)\<close>.\<close>

fun assert_slice :: "iface \<Rightarrow> iface list option" where
  "assert_slice (GSlice xs) = Some xs"
| "assert_slice GNilSlice = Some []"
| "assert_slice _ = None"

fun assert_map :: "iface \<Rightarrow> gomap option" where
  "assert_map (GMap m) = Some m"
| "assert_map _ = None"

fun assert_string :: "iface \<Rightarrow> string option" where
  "assert_string (GString s) = Some s"
| "assert_string _ = None"

text \<open>
  A local variable of type \<open>[]interface{}\<close>: \<open>None\<close> is the nil slice.
  \<open>append\<close> on it always yields a non-nil slice.
\<close>

type_synonym slice = "iface list option"

definition elems :: "slice \<Rightarrow> iface list" where
  "elems s = (case s of None \<Rightarrow> [] | Some xs \<Rightarrow> xs)"

definition append_go :: "slice \<Rightarrow> iface \<Rightarrow> slice" where
  "append_go s x = Some (elems s @ [x])"

definition slice_value :: "slice \<Rightarrow> iface" where
  "slice_value s = (case s of None \<Rightarrow> GNilSlice | Some xs \<Rightarrow> GSlice xs)"

text \<open>
  The clock: \<open>clk n\<close> is what the \<open>n\<close>-th evaluation (from 0) of
  \<open>time.Now().Unix()\<close> inside one call returns. Go evaluates the calls of a
  composite literal in lexical order.
\<close>

type_synonym clock = "nat \<Rightarrow> int"

definition fixed_clock :: "int \<Rightarrow> clock" where
  "fixed_clock t = (\<lambda>n. t)"

section \<open>HTTP headers, requests and the response writer (net/http)\<close>

definition is_lower :: "char \<Rightarrow> bool" where
  "is_lower c = (97 \<le> (of_char c :: nat) \<and> (of_char c :: nat) \<le> 122)"

definition is_upper :: "char \<Rightarrow> bool" where
  "is_upper c = (65 \<le> (of_char c :: nat) \<and> (of_char c :: nat) \<le> 90)"

definition is_digit :: "char \<Rightarrow> bool" where
  "is_digit c = (48 \<le> (of_char c :: nat) \<and> (of_char c :: nat) \<le> 57)"

definition validHeaderFieldByte :: "char \<Rightarrow> bool" where
  "validHeaderFieldByte c =
     (is_lower c \<or> is_upper c \<or> is_digit c \<or> c \<in> set ''!#$%&*+-.^_`|~'' \<or> c = CHR 0x27)"

fun canon :: "bool \<Rightarrow> string \<Rightarrow> string" where
  "canon upper [] = []"
| "canon upper (c # cs) =
     (let c' = (if upper \<and> is_lower c then char_of (of_char c - (32::nat))
                else if \<not> upper \<and> is_upper c then char_of (of_char c + (32::nat))
                else c)
      in c' # canon (c' = CHR ''-'') cs)"

text \<open>
  \<open>textproto.CanonicalMIMEHeaderKey\<close>, through which \<open>Header.Set\<close> and
  \<open>Header.Get\<close> pass their key: the first letter and every letter after a hyphen
  in upper case, the others in lower case; a key with a byte that is not a
  header token byte is left as it is.
\<close>

definition CanonicalMIMEHeaderKey :: "string \<Rightarrow> string" where
  "CanonicalMIMEHeaderKey s = (if list_all validHeaderFieldByte s then canon True s else s)"

text \<open>\<open>http.Header\<close> is \<open>map[string][]string\<close>, keyed by canonical names.\<close>

type_synonym header = "(string \<times> string list) list"

definition Header_Set :: "string \<Rightarrow> string \<Rightarrow> header \<Rightarrow> header" where
  "Header_Set key v h = AList.update (CanonicalMIMEHeaderKey key) [v] h"

definition Header_Get :: "string \<Rightarrow> header \<Rightarrow> string" where
  "Header_Get key h =
     (case map_of h (CanonicalMIMEHeaderKey key) of
        None \<Rightarrow> ''''
      | Some [] \<Rightarrow> ''''
      | Some (v # _) \<Rightarrow> v)"

text \<open>The incoming request, as far as the handler reads it.\<close>

record Request =
  Method :: string
  Header :: header

text \<open>
  The \<open>http.ResponseWriter\<close>: the header map the handler mutates, the status and
  header snapshot sent by the first \<open>WriteHeader\<close> (\<open>None\<close> before it), and the
  values written to the body through \<open>json.NewEncoder(w).Encode\<close>, in order.
  Writing to the body before any \<open>WriteHeader\<close> sends status 200 first; a second
  \<open>WriteHeader\<close> is ignored.
\<close>

record ResponseWriter =
  w_header :: header
  w_sent :: "(nat \<times> header) option"
  w_body :: "iface list"

definition WriteHeader :: "nat \<Rightarrow> ResponseWriter \<Rightarrow> ResponseWriter" where
  "WriteHeader code w =
     (case w_sent w of None \<Rightarrow> w\<lparr>w_sent := Some (code, w_header w)\<rparr> | Some _ \<Rightarrow> w)"

definition Encode :: "iface \<Rightarrow> ResponseWriter \<Rightarrow> ResponseWriter" where
  "Encode v w = (let w' = WriteHeader 200 w in w'\<lparr>w_body := w_body w' @ [v]\<rparr>)"

section \<open>The models handler (internal/proxy/models\_handler.go)\<close>

type_synonym err = string

text \<open>
  \<open>TokenProvider\<close> is an interface with the method \<open>GetAccessToken() (string, error)\<close>;
  a provider state is represented by what that call returns. \<open>http.Client.Do\<close>
  is the upstream: it maps the request sent to an error or a response, whose
  body is the outcome of \<open>io.ReadAll\<close>.
\<close>

record TokenProvider =
  GetAccessToken :: "err + string"

record UpstreamRequest =
  u_method :: string
  u_url :: string
  u_header :: header

record UpstreamResponse =
  StatusCode :: int
  Body :: "err + string"

record Client =
  Do :: "UpstreamRequest \<Rightarrow> err + UpstreamResponse"

record ModelsHandler =
  tokenProvider :: TokenProvider
  upstreamURL :: string
  httpClient :: Client

text \<open>
  The library calls whose outcome the code branches on: \<open>url_Parse\<close> returns the
  error with which \<open>http.NewRequest\<close> rejects a URL (\<open>None\<close> when it accepts),
  \<open>json_Unmarshal\<close> decodes a body into a map or fails.
\<close>

record Env =
  url_Parse :: "string \<Rightarrow> err option"
  json_Unmarshal :: "string \<Rightarrow> err + gomap"

text \<open>The calls a handler makes to the token provider and to the upstream, in order.\<close>

datatype Call = CallGetAccessToken | CallDo UpstreamRequest

datatype FetchError =
    FailedToGetAccessToken err
  | FailedToCreateRequest err
  | FailedToMakeRequest err
  | APIReturnedStatus int
  | FailedToReadResponse err
  | FailedToParseResponse err

definition setCORSHeadersStandalone :: "ResponseWriter \<Rightarrow> Request \<Rightarrow> ResponseWriter" where
  "setCORSHeadersStandalone w r =
     (let origin = Header_Get ''Origin'' (Header r);
          origin = (if origin = '''' then ''*'' else origin)
      in w\<lparr>w_header :=
            Header_Set ''Access-Control-Max-Age'' ''3600''
             (Header_Set ''Access-Control-Allow-Credentials'' ''true''
               (Header_Set ''Access-Control-Allow-Headers'' ''Content-Type, Authorization, X-Requested-With''
                 (Header_Set ''Access-Control-Allow-Methods'' ''GET, POST, PUT, DELETE, OPTIONS''
                   (Header_Set ''Access-Control-Allow-Origin'' origin (w_header w)))))\<rparr>)"

text \<open>
  The permission map and the model map are written out in the source once per
  model, identically up to the values passed here.
\<close>

definition permission :: "int \<Rightarrow> string \<Rightarrow> iface" where
  "permission created pid = GMap
     [(''allow_create_engine'', GBool False),
      (''allow_fine_tuning'', GBool False),
      (''allow_logprobs'', GBool False),
      (''allow_sampling'', GBool True),
      (''allow_search_indices'', GBool False),
      (''allow_view'', GBool True),
      (''created'', GInt created),
      (''group'', GNil),
      (''id'', GString pid),
      (''is_blocking'', GBool False),
      (''object'', GString ''model_permission''),
      (''organization'', GString ''*'')]"

definition model :: "string \<Rightarrow> int \<Rightarrow> iface \<Rightarrow> iface" where
  "model mid created perm = GMap
     [(''id'', GString mid),
      (''object'', GString ''model''),
      (''created'', GInt created),
      (''owned_by'', GString ''anthropic''),
      (''permission'', GSlice [perm])]"

definition getOAuthModels :: "ModelsHandler \<Rightarrow> clock \<Rightarrow> gomap" where
  "getOAuthModels h clk =
     [(''object'', GString ''list''),
      (''data'', GSlice
        [model ''claude-opus-4-20250514'' 1747353600
           (permission (clk 0) ''modelperm-claude-opus-4-20250514''),
         model ''claude-sonnet-4-20250514'' 1747353600
           (permission (clk 1) ''modelperm-claude-sonnet-4-20250514''),
         model ''claude-3-7-sonnet-20250219'' 1740009600
           (permission (clk 2) ''modelperm-claude-3-7-sonnet-20250219''),
         model ''claude-3-5-sonnet-20241022'' 1729555200
           (permission (clk 3) ''modelperm-claude-3-5-sonnet-20241022''),
         model ''claude-3-5-sonnet-20240620'' 1718841600
           (permission (clk 4) ''modelperm-claude-3-5-sonnet-20240620''),
         model ''claude-3-5-haiku-20241022'' 1729555200
           (permission (clk 5) ''modelperm-claude-3-5-haiku-20241022''),
         model ''claude-3-opus-20240229'' 1709251200
           (permission (clk 6) ''modelperm-claude-3-opus-20240229''),
         model ''claude-3-sonnet-20240229'' 1709251200
           (permission (clk 7) ''modelperm-claude-3-sonnet-20240229''),
         model ''claude-3-haiku-20240307'' 1709769600
           (permission (clk 8) ''modelperm-claude-3-haiku-20240307'')])]"

text \<open>
  \<open>ServeHTTP\<close> returns the response writer after the call and the calls made to
  the token provider and the upstream.
\<close>

definition ServeHTTP :: "ModelsHandler \<Rightarrow> clock \<Rightarrow> ResponseWriter \<Rightarrow> Request \<Rightarrow> ResponseWriter \<times> Call list" where
  "ServeHTTP h clk w r =
     (if Method r = ''OPTIONS'' then
        (WriteHeader 204 (setCORSHeadersStandalone w r), [])
      else
        (let w1 = setCORSHeadersStandalone w r;
             models = getOAuthModels h clk;
             w2 = w1\<lparr>w_header := Header_Set ''Content-Type'' ''application/json'' (w_header w1)\<rparr>
         in (Encode (GMap models) w2, [])))"

text \<open>
  The loop of \<open>convertAnthropicModelsToOpenAI\<close> over \<open>data\<close>; \<open>n\<close> counts the clock
  readings made so far, two for each element that is converted.
\<close>

fun convert_loop :: "clock \<Rightarrow> nat \<Rightarrow> slice \<Rightarrow> iface list \<Rightarrow> slice" where
  "convert_loop clk n models [] = models"
| "convert_loop clk n models (item # rest) =
     (case assert_map item of
        Some m \<Rightarrow>
          (case assert_string (index m ''id'') of
             Some modelID \<Rightarrow>
               convert_loop clk (n + 2)
                 (append_go models
                    (model modelID (clk n) (permission (clk (n + 1)) (''modelperm-'' @ modelID))))
                 rest
           | None \<Rightarrow> convert_loop clk n models rest)
      | None \<Rightarrow> convert_loop clk n models rest)"

definition convertAnthropicModelsToOpenAI :: "ModelsHandler \<Rightarrow> clock \<Rightarrow> gomap \<Rightarrow> gomap" where
  "convertAnthropicModelsToOpenAI h clk anthropicResponse =
     (let openAIModels = [(''object'', GString ''list''), (''data'', GSlice [])]
      in case assert_slice (index anthropicResponse ''data'') of
           Some data \<Rightarrow>
             AList.update ''data'' (slice_value (convert_loop clk 0 None data)) openAIModels
         | None \<Rightarrow> openAIModels)"

text \<open>\<open>http.NewRequest(method, url, nil)\<close>: a request with an empty header map.\<close>

definition NewRequest :: "Env \<Rightarrow> string \<Rightarrow> string \<Rightarrow> err + UpstreamRequest" where
  "NewRequest env m url =
     (case url_Parse env url of
        Some e \<Rightarrow> Inl e
      | None \<Rightarrow> Inr \<lparr>u_method = m, u_url = url, u_header = []\<rparr>)"

definition fetchModelsFromAnthropic :: "Env \<Rightarrow> ModelsHandler \<Rightarrow> clock \<Rightarrow> (FetchError + gomap) \<times> Call list" where
  "fetchModelsFromAnthropic env h clk =
     (case GetAccessToken (tokenProvider h) of
        Inl e \<Rightarrow> (Inl (FailedToGetAccessToken e), [CallGetAccessToken])
      | Inr accessToken \<Rightarrow>
          (case NewRequest env ''GET'' (upstreamURL h @ ''/v1/models'') of
             Inl e \<Rightarrow> (Inl (FailedToCreateRequest e), [CallGetAccessToken])
           | Inr req0 \<Rightarrow>
               (let req = req0\<lparr>u_header :=
                      Header_Set ''Content-Type'' ''application/json''
                       (Header_Set ''anthropic-beta'' ''oauth-2025-04-20''
                         (Header_Set ''anthropic-version'' ''2023-06-01''
                           (Header_Set ''Authorization'' (''Bearer '' @ accessToken) (u_header req0))))\<rparr>;
                    calls = [CallGetAccessToken, CallDo req]
                in case Do (httpClient h) req of
                     Inl e \<Rightarrow> (Inl (FailedToMakeRequest e), calls)
                   | Inr resp \<Rightarrow>
                       (if StatusCode resp \<noteq> 200 then (Inl (APIReturnedStatus (StatusCode resp)), calls)
                        else case Body resp of
                               Inl e \<Rightarrow> (Inl (FailedToReadResponse e), calls)
                             | Inr body \<Rightarrow>
                                 (case json_Unmarshal env body of
                                    Inl e \<Rightarrow> (Inl (FailedToParseResponse e), calls)
                                  | Inr anthropicResponse \<Rightarrow>
                                      (Inr (convertAnthropicModelsToOpenAI h clk anthropicResponse), calls))))))"

section \<open>Reading a response document\<close>

text \<open>\<open>field v k\<close> is \<open>v[k]\<close> when \<open>v\<close> holds a map, and nil otherwise.\<close>

definition field :: "iface \<Rightarrow> string \<Rightarrow> iface" where
  "field v k = (case assert_map v of Some m \<Rightarrow> index m k | None \<Rightarrow> GNil)"

text \<open>The elements of a slice value (none when the value is not a slice).\<close>

definition slice_elems :: "iface \<Rightarrow> iface list" where
  "slice_elems v = (case assert_slice v of Some xs \<Rightarrow> xs | None \<Rightarrow> [])"

text \<open>The elements of the \<open>data\<close> array of a listing.\<close>

definition entries :: "gomap \<Rightarrow> iface list" where
  "entries doc = slice_elems (index doc ''data'')"

text \<open>Field \<open>k\<close> of each element of an entry's \<open>permission\<close> array.\<close>

definition perm_fields :: "iface \<Rightarrow> string \<Rightarrow> iface list" where
  "perm_fields e k = map (\<lambda>p. field p k) (slice_elems (field e ''permission''))"

text \<open>
  The input elements that the listing conversion is said to keep: an object
  with a string \<open>id\<close> field, and the ids of those elements in input order.
\<close>

definition string_id :: "iface \<Rightarrow> string option" where
  "string_id item =
     (case item of
        GMap m \<Rightarrow> (case map_of m ''id'' of Some (GString s) \<Rightarrow> Some s | _ \<Rightarrow> None)
      | _ \<Rightarrow> None)"

definition string_ids :: "iface list \<Rightarrow> string list" where
  "string_ids data = List.map_filter string_id data"

text \<open>The status and the header value a client receives.\<close>

definition sent_status :: "ResponseWriter \<Rightarrow> nat option" where
  "sent_status w = map_option fst (w_sent w)"

definition sent_header :: "string \<Rightarrow> ResponseWriter \<Rightarrow> string option" where
  "sent_header key w = map_option (\<lambda>(code, hd). Header_Get key hd) (w_sent w)"

section \<open>Calendar dates as Unix time\<close>

text \<open>
  Days from 1970-01-01 to a date of the proleptic Gregorian calendar, with the
  year starting in March so that the leap day comes last, and the Unix time of
  that date's midnight UTC. Used to read the dates that the source writes in
  the comment beside each \<open>created\<close> constant.
\<close>

definition days_from_civil :: "int \<Rightarrow> int \<Rightarrow> int \<Rightarrow> int" where
  "days_from_civil y m d =
     (let y' = (if m \<le> 2 then y - 1 else y);
          era = y' div 400;
          yoe = y' - era * 400;
          doy = (153 * (if m > 2 then m - 3 else m + 9) + 2) div 5 + d - 1;
          doe = yoe * 365 + yoe div 4 - yoe div 100 + doy
      in era * 146097 + doe - 719468)"

definition unix_of_date :: "int \<Rightarrow> int \<Rightarrow> int \<Rightarrow> int" where
  "unix_of_date y m d = 86400 * days_from_civil y m d"

text \<open>The dates in the comments of \<open>getOAuthModels\<close>, in the order of the listing.\<close>

definition commented_dates :: "(int \<times> int \<times> int) list" where
  "commented_dates =
     [(2025, 5, 14), (2025, 5, 14), (2025, 2, 19), (2024, 10, 22), (2024, 6, 20),
      (2024, 10, 22), (2024, 2, 29), (2024, 2, 29), (2024, 3, 7)]"

section \<open>Example inputs\<close>

definition refusing_client :: Client where
  "refusing_client = \<lparr>Do = (\<lambda>req. Inl ''connection refused'')\<rparr>"

definition example_handler :: ModelsHandler where
  "example_handler =
     \<lparr>tokenProvider = \<lparr>GetAccessToken = Inr ''tok''\<rparr>,
      upstreamURL = ''https://api.anthropic.com'',
      httpClient = refusing_client\<rparr>"

definition logged_out_handler :: ModelsHandler where
  "logged_out_handler =
     \<lparr>tokenProvider = \<lparr>GetAccessToken = Inl ''login required''\<rparr>,
      upstreamURL = ''http://localhost:1'',
      httpClient = refusing_client\<rparr>"

definition example_env :: Env where
  "example_env = \<lparr>url_Parse = (\<lambda>u. None), json_Unmarshal = (\<lambda>b. Inl ''unexpected end of JSON input'')\<rparr>"

definition fresh_writer :: ResponseWriter where
  "fresh_writer = \<lparr>w_header = [], w_sent = None, w_body = []\<rparr>"

definition get_request :: Request where
  "get_request = \<lparr>Method = ''GET'', Header = [(''Origin'', [''https://app.example''])]\<rparr>"

definition get_request_no_origin :: Request where
  "get_request_no_origin = \<lparr>Method = ''GET'', Header = [(''Accept'', [''*/*''])]\<rparr>"

definition options_request :: Request where
  "options_request = \<lparr>Method = ''OPTIONS'', Header = [(''Origin'', [''https://app.example''])]\<rparr>"

definition example_response :: gomap where
  "example_response =
     [(''data'', GSlice
        [GMap [(''id'', GString ''claude-a''), (''type'', GString ''model'')],
         GString ''stray'',
         GMap [(''id'', GInt 7)],
         GMap [(''display_name'', GString ''B''), (''id'', GString ''claude-b'')]]),
      (''has_more'', GBool False)]"

definition example_response_no_data :: gomap where
  "example_response_no_data = [(''data'', GString ''none''), (''has_more'', GBool False)]"

section \<open>Properties of the models handler\<close>

subsection \<open>Headers and the response writer\<close>

lemma canonical_keys:
  "CanonicalMIMEHeaderKey ''Origin'' = ''Origin''"
  "CanonicalMIMEHeaderKey ''Access-Control-Allow-Origin'' = ''Access-Control-Allow-Origin''"
  "CanonicalMIMEHeaderKey ''Access-Control-Allow-Methods'' = ''Access-Control-Allow-Methods''"
  "CanonicalMIMEHeaderKey ''Access-Control-Allow-Headers'' = ''Access-Control-Allow-Headers''"
  "CanonicalMIMEHeaderKey ''Access-Control-Allow-Credentials'' = ''Access-Control-Allow-Credentials''"
  "CanonicalMIMEHeaderKey ''Access-Control-Max-Age'' = ''Access-Control-Max-Age''"
  "CanonicalMIMEHeaderKey ''Content-Type'' = ''Content-Type''"
  "CanonicalMIMEHeaderKey ''Authorization'' = ''Authorization''"
  "CanonicalMIMEHeaderKey ''anthropic-version'' = ''Anthropic-Version''"
  "CanonicalMIMEHeaderKey ''anthropic-beta'' = ''Anthropic-Beta''"
  by code_simp+

lemma Header_Get_Set:
  "Header_Get k (Header_Set k' v h) =
     (if CanonicalMIMEHeaderKey k = CanonicalMIMEHeaderKey k' then v else Header_Get k h)"
  by (simp add: Header_Get_def Header_Set_def update_conv')

lemma WriteHeader_fresh:
  "w_sent w = None \<Longrightarrow> WriteHeader code w = w\<lparr>w_sent := Some (code, w_header w)\<rparr>"
  by (simp add: WriteHeader_def)

lemma cors_sent [simp]: "w_sent (setCORSHeadersStandalone w r) = w_sent w"
  by (simp add: setCORSHeadersStandalone_def Let_def)

lemma cors_body [simp]: "w_body (setCORSHeadersStandalone w r) = w_body w"
  by (simp add: setCORSHeadersStandalone_def Let_def)

lemma cors_header:
  "Header_Get k (w_header (setCORSHeadersStandalone w r)) =
     (if CanonicalMIMEHeaderKey k = ''Access-Control-Max-Age'' then ''3600''
      else if CanonicalMIMEHeaderKey k = ''Access-Control-Allow-Credentials'' then ''true''
      else if CanonicalMIMEHeaderKey k = ''Access-Control-Allow-Headers''
        then ''Content-Type, Authorization, X-Requested-With''
      else if CanonicalMIMEHeaderKey k = ''Access-Control-Allow-Methods''
        then ''GET, POST, PUT, DELETE, OPTIONS''
      else if CanonicalMIMEHeaderKey k = ''Access-Control-Allow-Origin''
        then (if Header_Get ''Origin'' (Header r) = '''' then ''*'' else Header_Get ''Origin'' (Header r))
      else Header_Get k (w_header w))"
  by (simp add: setCORSHeadersStandalone_def Let_def Header_Get_Set canonical_keys)

lemma ServeHTTP_sent:
  assumes "w_sent w = None"
  shows "w_sent (fst (ServeHTTP h clk w r)) =
           Some (if Method r = ''OPTIONS'' then 204 else 200, w_header (fst (ServeHTTP h clk w r)))"
  using assms by (simp add: ServeHTTP_def Let_def Encode_def WriteHeader_fresh)

lemma ServeHTTP_header:
  "Header_Get k (w_header (fst (ServeHTTP h clk w r))) =
     (if Method r \<noteq> ''OPTIONS'' \<and> CanonicalMIMEHeaderKey k = ''Content-Type'' then ''application/json''
      else Header_Get k (w_header (setCORSHeadersStandalone w r)))"
  by (simp add: ServeHTTP_def Let_def Encode_def WriteHeader_def Header_Get_Set canonical_keys
           split: option.splits)

lemma ServeHTTP_body:
  "w_body (fst (ServeHTTP h clk w r)) =
     (if Method r = ''OPTIONS'' then w_body w else w_body w @ [GMap (getOAuthModels h clk)])"
  by (simp add: ServeHTTP_def Let_def Encode_def WriteHeader_def split: option.splits)

lemma sent_header_ServeHTTP:
  assumes "w_sent w = None"
  shows "sent_header k (fst (ServeHTTP h clk w r)) =
           Some (Header_Get k (w_header (fst (ServeHTTP h clk w r))))"
  by (simp add: sent_header_def ServeHTTP_sent [OF assms])


lemma field_model:
  "field (model mid c p) k =
     (if k = ''id'' then GString mid else if k = ''object'' then GString ''model''
      else if k = ''created'' then GInt c else if k = ''owned_by'' then GString ''anthropic''
      else if k = ''permission'' then GSlice [p] else GNil)"
  by (simp add: field_def model_def index_def)

lemma field_permission_id_created:
  "field (permission c pid) ''id'' = GString pid"
  "field (permission c pid) ''created'' = GInt c"
  by (simp_all add: field_def permission_def index_def)

lemma entries_getOAuthModels:
  "entries (getOAuthModels h clk) =
     [model ''claude-opus-4-20250514'' 1747353600
        (permission (clk 0) ''modelperm-claude-opus-4-20250514''),
      model ''claude-sonnet-4-20250514'' 1747353600
        (permission (clk 1) ''modelperm-claude-sonnet-4-20250514''),
      model ''claude-3-7-sonnet-20250219'' 1740009600
        (permission (clk 2) ''modelperm-claude-3-7-sonnet-20250219''),
      model ''claude-3-5-sonnet-20241022'' 1729555200
        (permission (clk 3) ''modelperm-claude-3-5-sonnet-20241022''),
      model ''claude-3-5-sonnet-20240620'' 1718841600
        (permission (clk 4) ''modelperm-claude-3-5-sonnet-20240620''),
      model ''claude-3-5-haiku-20241022'' 1729555200
        (permission (clk 5) ''modelperm-claude-3-5-haiku-20241022''),
      model ''claude-3-opus-20240229'' 1709251200
        (permission (clk 6) ''modelperm-claude-3-opus-20240229''),
      model ''claude-3-sonnet-20240229'' 1709251200
        (permission (clk 7) ''modelperm-claude-3-sonnet-20240229''),
      model ''claude-3-haiku-20240307'' 1709769600
        (permission (clk 8) ''modelperm-claude-3-haiku-20240307'')]"
  by (simp add: entries_def slice_elems_def getOAuthModels_def index_def)

lemma getOAuthModels_object: "index (getOAuthModels h clk) ''object'' = GString ''list''"
  by (simp add: getOAuthModels_def index_def)

lemma getOAuthModels_data_is_slice:
  "assert_slice (index (getOAuthModels h clk) ''data'') = Some (entries (getOAuthModels h clk))"
  by (simp add: entries_def slice_elems_def getOAuthModels_def index_def)

text \<open>
  Claim C1. For every GET request the handler writes one JSON document in
  OpenAI list shape: its \<open>object\<close> is \<open>list\<close>, its \<open>data\<close> is an array, and every
  element of \<open>data\<close> has \<open>object\<close> equal to \<open>model\<close> and \<open>owned_by\<close> equal to
  \<open>anthropic\<close>. The document is sent as \<open>application/json\<close>.
\<close>

theorem C1_models_listing_shape:
  assumes "Method r = ''GET''"
  shows "w_body (fst (ServeHTTP h clk w r)) = w_body w @ [GMap (getOAuthModels h clk)]
     \<and> index (getOAuthModels h clk) ''object'' = GString ''list''
     \<and> assert_slice (index (getOAuthModels h clk) ''data'') = Some (entries (getOAuthModels h clk))
     \<and> list_all (\<lambda>e. field e ''object'' = GString ''model'' \<and> field e ''owned_by'' = GString ''anthropic'')
          (entries (getOAuthModels h clk))
     \<and> Header_Get ''Content-Type'' (w_header (fst (ServeHTTP h clk w r))) = ''application/json''"
proof -
  have m: "Method r \<noteq> ''OPTIONS''" using assms by simp
  have b: "w_body (fst (ServeHTTP h clk w r)) = w_body w @ [GMap (getOAuthModels h clk)]"
    using m by (simp add: ServeHTTP_body)
  have e: "list_all (\<lambda>e. field e ''object'' = GString ''model'' \<and> field e ''owned_by'' = GString ''anthropic'')
          (entries (getOAuthModels h clk))"
    by (simp add: entries_getOAuthModels field_model)
  have c: "Header_Get ''Content-Type'' (w_header (fst (ServeHTTP h clk w r))) = ''application/json''"
    using m by (simp add: ServeHTTP_header canonical_keys)
  show ?thesis
    using b e c getOAuthModels_object getOAuthModels_data_is_slice by simp
qed

theorem C1_models_listing_shape_witness:
  "Method get_request = ''GET''
   \<and> w_body (fst (ServeHTTP example_handler (fixed_clock 1761861600) fresh_writer get_request))
       = [GMap (getOAuthModels example_handler (fixed_clock 1761861600))]
   \<and> index (getOAuthModels example_handler (fixed_clock 1761861600)) ''object'' = GString ''list''
   \<and> map (\<lambda>e. field e ''object'') (entries (getOAuthModels example_handler (fixed_clock 1761861600)))
       = replicate 9 (GString ''model'')
   \<and> map (\<lambda>e. field e ''owned_by'') (entries (getOAuthModels example_handler (fixed_clock 1761861600)))
       = replicate 9 (GString ''anthropic'')"
proof -
  have g: "Method get_request = ''GET''" by (simp add: get_request_def)
  have l: "length (entries (getOAuthModels example_handler (fixed_clock 1761861600))) = 9"
    by (simp add: entries_getOAuthModels)
  from C1_models_listing_shape [OF g, of example_handler "fixed_clock 1761861600" fresh_writer]
  have b: "w_body (fst (ServeHTTP example_handler (fixed_clock 1761861600) fresh_writer get_request))
       = [GMap (getOAuthModels example_handler (fixed_clock 1761861600))]"
    and o: "index (getOAuthModels example_handler (fixed_clock 1761861600)) ''object'' = GString ''list''"
    and a: "list_all (\<lambda>e. field e ''object'' = GString ''model'' \<and> field e ''owned_by'' = GString ''anthropic'')
          (entries (getOAuthModels example_handler (fixed_clock 1761861600)))"
    by (simp_all add: fresh_writer_def)
  from a have "\<forall>e \<in> set (entries (getOAuthModels example_handler (fixed_clock 1761861600))).
       field e ''object'' = GString ''model'' \<and> field e ''owned_by'' = GString ''anthropic''"
    by (simp add: list_all_iff)
  then have
    "map (\<lambda>e. field e ''object'') (entries (getOAuthModels example_handler (fixed_clock 1761861600)))
       = replicate (length (entries (getOAuthModels example_handler (fixed_clock 1761861600)))) (GString ''model'')"
    "map (\<lambda>e. field e ''owned_by'') (entries (getOAuthModels example_handler (fixed_clock 1761861600)))
       = replicate (length (entries (getOAuthModels example_handler (fixed_clock 1761861600)))) (GString ''anthropic'')"
    by (simp_all add: map_replicate_const [symmetric])
  with g b o l show ?thesis by simp
qed

text \<open>
  The response to a GET request on a fresh writer carries
  \<open>Access-Control-Allow-Headers: Content-Type, Authorization, X-Requested-With\<close>,
  which is not the five-name list with \<open>anthropic-version\<close> and \<open>anthropic-beta\<close>.
\<close>

theorem C2_allow_headers_counterexample:
  "sent_header ''Access-Control-Allow-Headers''
     (fst (ServeHTTP example_handler (fixed_clock 1761861600) fresh_writer get_request))
     = Some ''Content-Type, Authorization, X-Requested-With''
   \<and> ''Content-Type, Authorization, X-Requested-With''
       \<noteq> ''Content-Type, Authorization, X-Requested-With, anthropic-version, anthropic-beta''"
proof -
  have "w_sent fresh_writer = None" by (simp add: fresh_writer_def)
  then show ?thesis
    by (simp add: sent_header_ServeHTTP ServeHTTP_header cors_header canonical_keys)
qed

text \<open>
  Claim C2, as amended. For every response of the models handler, which
  attaches its CORS headers through \<open>setCORSHeadersStandalone\<close>, the
  \<open>Access-Control-Allow-Headers\<close> value sent is exactly
  \<open>Content-Type, Authorization, X-Requested-With\<close>.
\<close>

theorem C2_allow_headers_models_handler:
  assumes "w_sent w = None"
  shows "sent_header ''Access-Control-Allow-Headers'' (fst (ServeHTTP h clk w r))
           = Some ''Content-Type, Authorization, X-Requested-With''"
  by (simp add: sent_header_ServeHTTP [OF assms] ServeHTTP_header cors_header canonical_keys)

theorem C2_allow_headers_models_handler_witness:
  "w_sent fresh_writer = None
   \<and> sent_header ''Access-Control-Allow-Headers''
        (fst (ServeHTTP logged_out_handler (fixed_clock 0) fresh_writer options_request))
       = Some ''Content-Type, Authorization, X-Requested-With''"
proof -
  have f: "w_sent fresh_writer = None" by (simp add: fresh_writer_def)
  from C2_allow_headers_models_handler [OF f] f show ?thesis by simp
qed

text \<open>
  Claim C3. For every incoming request the \<open>Access-Control-Allow-Origin\<close>
  response header equals the request's \<open>Origin\<close> header when that is a non-empty
  string and \<open>*\<close> when the \<open>Origin\<close> header is absent;
  \<open>Access-Control-Allow-Credentials\<close> is \<open>true\<close> and \<open>Access-Control-Max-Age\<close> is
  \<open>3600\<close> in both cases.
\<close>

theorem C3_allow_origin_credentials_max_age:
  assumes "w_sent w = None"
  shows "(Header_Get ''Origin'' (Header r) \<noteq> '''' \<longrightarrow>
            sent_header ''Access-Control-Allow-Origin'' (fst (ServeHTTP h clk w r))
              = Some (Header_Get ''Origin'' (Header r)))
       \<and> (map_of (Header r) ''Origin'' = None \<longrightarrow>
            sent_header ''Access-Control-Allow-Origin'' (fst (ServeHTTP h clk w r)) = Some ''*'')
       \<and> sent_header ''Access-Control-Allow-Credentials'' (fst (ServeHTTP h clk w r)) = Some ''true''
       \<and> sent_header ''Access-Control-Max-Age'' (fst (ServeHTTP h clk w r)) = Some ''3600''"
proof -
  have a: "map_of (Header r) ''Origin'' = None \<Longrightarrow> Header_Get ''Origin'' (Header r) = ''''"
    by (simp add: Header_Get_def canonical_keys)
  show ?thesis
    using a by (simp add: sent_header_ServeHTTP [OF assms] ServeHTTP_header cors_header canonical_keys)
qed

theorem C3_allow_origin_credentials_max_age_witness:
  "w_sent fresh_writer = None
   \<and> Header_Get ''Origin'' (Header get_request) = ''https://app.example''
   \<and> map_of (Header get_request_no_origin) ''Origin'' = None
   \<and> sent_header ''Access-Control-Allow-Origin''
        (fst (ServeHTTP example_handler (fixed_clock 0) fresh_writer get_request))
       = Some ''https://app.example''
   \<and> sent_header ''Access-Control-Allow-Origin''
        (fst (ServeHTTP example_handler (fixed_clock 0) fresh_writer get_request_no_origin))
       = Some ''*''
   \<and> sent_header ''Access-Control-Allow-Credentials''
        (fst (ServeHTTP example_handler (fixed_clock 0) fresh_writer get_request)) = Some ''true''
   \<and> sent_header ''Access-Control-Max-Age''
        (fst (ServeHTTP example_handler (fixed_clock 0) fresh_writer get_request_no_origin)) = Some ''3600''"
proof -
  have f: "w_sent fresh_writer = None" by (simp add: fresh_writer_def)
  have o: "Header_Get ''Origin'' (Header get_request) = ''https://app.example''"
    by (simp add: Header_Get_def get_request_def canonical_keys)
  have n: "map_of (Header get_request_no_origin) ''Origin'' = None"
    by (simp add: get_request_no_origin_def)
  from C3_allow_origin_credentials_max_age [OF f, of get_request example_handler "fixed_clock 0"]
       C3_allow_origin_credentials_max_age [OF f, of get_request_no_origin example_handler "fixed_clock 0"]
       f o n
  show ?thesis by simp
qed

text \<open>
  Claim C4. For every request with method \<open>OPTIONS\<close> the models handler answers
  with status 204, with the five CORS headers set, and writes nothing to the
  body: the model listing is not written.
\<close>

theorem C4_options_preflight:
  assumes "Method r = ''OPTIONS''" and "w_sent w = None"
  shows "sent_status (fst (ServeHTTP h clk w r)) = Some 204
       \<and> sent_header ''Access-Control-Allow-Origin'' (fst (ServeHTTP h clk w r))
           = Some (if Header_Get ''Origin'' (Header r) = '''' then ''*'' else Header_Get ''Origin'' (Header r))
       \<and> sent_header ''Access-Control-Allow-Methods'' (fst (ServeHTTP h clk w r))
           = Some ''GET, POST, PUT, DELETE, OPTIONS''
       \<and> sent_header ''Access-Control-Allow-Headers'' (fst (ServeHTTP h clk w r))
           = Some ''Content-Type, Authorization, X-Requested-With''
       \<and> sent_header ''Access-Control-Allow-Credentials'' (fst (ServeHTTP h clk w r)) = Some ''true''
       \<and> sent_header ''Access-Control-Max-Age'' (fst (ServeHTTP h clk w r)) = Some ''3600''
       \<and> w_body (fst (ServeHTTP h clk w r)) = w_body w"
proof -
  have s: "sent_status (fst (ServeHTTP h clk w r)) = Some 204"
    using assms by (simp add: sent_status_def ServeHTTP_sent)
  have b: "w_body (fst (ServeHTTP h clk w r)) = w_body w"
    using assms by (simp add: ServeHTTP_body)
  show ?thesis
    using s b
    by (simp add: sent_header_ServeHTTP [OF assms(2)] ServeHTTP_header cors_header canonical_keys)
qed

theorem C4_options_preflight_witness:
  "Method options_request = ''OPTIONS'' \<and> w_sent fresh_writer = None
   \<and> sent_status (fst (ServeHTTP example_handler (fixed_clock 0) fresh_writer options_request)) = Some 204
   \<and> sent_header ''Access-Control-Allow-Origin''
        (fst (ServeHTTP example_handler (fixed_clock 0) fresh_writer options_request))
       = Some ''https://app.example''
   \<and> sent_header ''Access-Control-Max-Age''
        (fst (ServeHTTP example_handler (fixed_clock 0) fresh_writer options_request)) = Some ''3600''
   \<and> w_body (fst (ServeHTTP example_handler (fixed_clock 0) fresh_writer options_request)) = []"
proof -
  have m: "Method options_request = ''OPTIONS''" by (simp add: options_request_def)
  have f: "w_sent fresh_writer = None" by (simp add: fresh_writer_def)
  have o: "Header_Get ''Origin'' (Header options_request) = ''https://app.example''"
    by (simp add: Header_Get_def options_request_def canonical_keys)
  have b: "w_body fresh_writer = []" by (simp add: fresh_writer_def)
  from C4_options_preflight [OF m f, of example_handler "fixed_clock 0"] m f o b
  show ?thesis by simp
qed

text \<open>
  Claim C6. The response of \<open>ServeHTTP\<close> does not depend on the token provider
  or on the upstream: two handlers that differ in provider state (also one whose
  \<open>GetAccessToken\<close> fails), upstream URL and HTTP client produce the same
  response, so the same status and body, for the same clock, writer and
  request; and \<open>ServeHTTP\<close> makes no call to \<open>GetAccessToken\<close> and sends no
  upstream request. This holds for every method, GET included.
\<close>

theorem C6_listing_independent_of_provider_and_upstream:
  "ServeHTTP h1 clk w r = ServeHTTP h2 clk w r
   \<and> sent_status (fst (ServeHTTP h1 clk w r)) = sent_status (fst (ServeHTTP h2 clk w r))
   \<and> w_body (fst (ServeHTTP h1 clk w r)) = w_body (fst (ServeHTTP h2 clk w r))
   \<and> snd (ServeHTTP h1 clk w r) = []"
proof -
  have "getOAuthModels h1 clk = getOAuthModels h2 clk"
    by (simp add: getOAuthModels_def)
  then have e: "ServeHTTP h1 clk w r = ServeHTTP h2 clk w r"
    by (simp add: ServeHTTP_def)
  have "snd (ServeHTTP h1 clk w r) = []"
    by (simp add: ServeHTTP_def Let_def)
  with e show ?thesis by simp
qed

text \<open>By contrast, \<open>fetchModelsFromAnthropic\<close> always starts by calling the provider.\<close>

lemma fetch_calls_provider_first:
  "\<exists>rest. snd (fetchModelsFromAnthropic env h clk) = CallGetAccessToken # rest"
  by (simp add: fetchModelsFromAnthropic_def Let_def split: sum.splits)

text \<open>
  The top-level \<open>created\<close> fields of the listing are the same nine constants
  for every clock, and the \<open>created\<close> field of the \<open>k\<close>-th model's permission
  entry is the \<open>k\<close>-th clock reading.
\<close>

lemma created_fields_fixed:
  "map (\<lambda>e. field e ''created'') (entries (getOAuthModels h clk)) =
     map GInt [1747353600, 1747353600, 1740009600, 1729555200, 1718841600,
               1729555200, 1709251200, 1709251200, 1709769600]"
  by (simp add: entries_getOAuthModels field_model)

lemma slice_elems_GSlice [simp]: "slice_elems (GSlice xs) = xs"
  by (simp add: slice_elems_def)

lemma permission_created_is_clock_reading:
  "map (\<lambda>e. perm_fields e ''created'') (entries (getOAuthModels h clk)) =
     [[GInt (clk 0)], [GInt (clk 1)], [GInt (clk 2)], [GInt (clk 3)], [GInt (clk 4)],
      [GInt (clk 5)], [GInt (clk 6)], [GInt (clk 7)], [GInt (clk 8)]]"
  by (simp add: entries_getOAuthModels perm_fields_def field_model field_permission_id_created)

lemma commented_dates_unix:
  "map (\<lambda>(y, m, d). unix_of_date y m d) commented_dates =
     [1747180800, 1747180800, 1739923200, 1729555200, 1718841600,
      1729555200, 1709164800, 1709164800, 1709769600]"
  by (simp add: commented_dates_def unix_of_date_def days_from_civil_def Let_def)

text \<open>
  Claim C5 says that every model's top-level \<open>created\<close> field is a fixed constant,
  the model's release date. The constants are fixed, but they are not the dates
  the source writes beside them: evaluated on the listing, the constant of
  \<open>claude-opus-4-20250514\<close>, commented \<open>2025-05-14\<close>, is midnight UTC two days
  later, and the constants at positions 0, 1, 2, 6 and 7 all differ from
  midnight UTC of their commented dates.
\<close>

theorem C5_created_differs_from_commented_date:
  "map (\<lambda>e. field e ''created'') (entries (getOAuthModels h clk)) =
     map GInt [1747353600, 1747353600, 1740009600, 1729555200, 1718841600,
               1729555200, 1709251200, 1709251200, 1709769600]
   \<and> map (\<lambda>(y, m, d). unix_of_date y m d) commented_dates =
       [1747180800, 1747180800, 1739923200, 1729555200, 1718841600,
        1729555200, 1709164800, 1709164800, 1709769600]
   \<and> field (entries (getOAuthModels h clk) ! 0) ''id'' = GString ''claude-opus-4-20250514''
   \<and> field (entries (getOAuthModels h clk) ! 0) ''created'' = GInt (unix_of_date 2025 5 14 + 2 * 86400)"
proof -
  have "unix_of_date 2025 5 14 = 1747180800"
    by (simp add: unix_of_date_def days_from_civil_def Let_def)
  then show ?thesis
    using created_fields_fixed [of h clk] commented_dates_unix
    by (simp add: entries_getOAuthModels field_model)
qed

text \<open>
  With a provider that returns the token \<open>tok\<close>, the request that
  \<open>fetchModelsFromAnthropic\<close> sends carries a fourth header, \<open>Content-Type\<close>,
  besides \<open>Authorization\<close>, \<open>anthropic-version\<close> and \<open>anthropic-beta\<close>.
\<close>

theorem C7_upstream_request_headers_counterexample:
  "snd (fetchModelsFromAnthropic example_env example_handler (fixed_clock 0)) =
     [CallGetAccessToken,
      CallDo \<lparr>u_method = ''GET'', u_url = ''https://api.anthropic.com/v1/models'',
              u_header = [(''Authorization'', [''Bearer tok'']),
                          (''Anthropic-Version'', [''2023-06-01'']),
                          (''Anthropic-Beta'', [''oauth-2025-04-20'']),
                          (''Content-Type'', [''application/json''])]\<rparr>]
   \<and> map_of [(''Authorization'', [''Bearer tok'']),
              (''Anthropic-Version'', [''2023-06-01'']),
              (''Anthropic-Beta'', [''oauth-2025-04-20'']),
              (''Content-Type'', [''application/json''])] ''Content-Type''
       = Some [''application/json'']
   \<and> ''Content-Type'' \<notin> {''Authorization'', ''Anthropic-Version'', ''Anthropic-Beta''}"
  by (simp add: fetchModelsFromAnthropic_def example_env_def example_handler_def refusing_client_def
        NewRequest_def Header_Set_def canonical_keys Let_def)

text \<open>
  Claim C7, as amended. Whenever \<open>fetchModelsFromAnthropic\<close> builds a request to
  the upstream \<open>/v1/models\<close> endpoint, the provider has returned an access token
  and the request carries exactly four headers: \<open>Authorization\<close> with \<open>Bearer\<close>,
  a space and that token, \<open>anthropic-version: 2023-06-01\<close>,
  \<open>anthropic-beta: oauth-2025-04-20\<close> and \<open>Content-Type: application/json\<close>.
\<close>

theorem C7_upstream_request_headers:
  assumes "CallDo req \<in> set (snd (fetchModelsFromAnthropic env h clk))"
  shows "\<exists>accessToken. GetAccessToken (tokenProvider h) = Inr accessToken
          \<and> u_method req = ''GET''
          \<and> u_url req = upstreamURL h @ ''/v1/models''
          \<and> u_header req = [(''Authorization'', [''Bearer '' @ accessToken]),
                             (''Anthropic-Version'', [''2023-06-01'']),
                             (''Anthropic-Beta'', [''oauth-2025-04-20'']),
                             (''Content-Type'', [''application/json''])]
          \<and> Header_Get ''Authorization'' (u_header req) = ''Bearer '' @ accessToken
          \<and> Header_Get ''anthropic-version'' (u_header req) = ''2023-06-01''
          \<and> Header_Get ''anthropic-beta'' (u_header req) = ''oauth-2025-04-20''
          \<and> Header_Get ''Content-Type'' (u_header req) = ''application/json''"
proof (cases "GetAccessToken (tokenProvider h)")
  case (Inl e)
  with assms show ?thesis by (simp add: fetchModelsFromAnthropic_def)
next
  case (Inr tok)
  show ?thesis
  proof (cases "url_Parse env (upstreamURL h @ ''/v1/models'')")
    case (Some e)
    with Inr assms show ?thesis by (simp add: fetchModelsFromAnthropic_def NewRequest_def)
  next
    case None
    let ?req = "\<lparr>u_method = ''GET'', u_url = upstreamURL h @ ''/v1/models'',
                  u_header = [(''Authorization'', [''Bearer '' @ tok]),
                              (''Anthropic-Version'', [''2023-06-01'']),
                              (''Anthropic-Beta'', [''oauth-2025-04-20'']),
                              (''Content-Type'', [''application/json''])]\<rparr>"
    have "snd (fetchModelsFromAnthropic env h clk) = [CallGetAccessToken, CallDo ?req]"
      using Inr None
      by (simp add: fetchModelsFromAnthropic_def NewRequest_def Header_Set_def canonical_keys Let_def
            split: sum.splits)
    with assms have "req = ?req" by simp
    then show ?thesis
      using Inr by (simp add: Header_Get_def canonical_keys)
  qed
qed

theorem C7_upstream_request_headers_witness:
  "CallDo \<lparr>u_method = ''GET'', u_url = ''https://api.anthropic.com/v1/models'',
              u_header = [(''Authorization'', [''Bearer tok'']),
                          (''Anthropic-Version'', [''2023-06-01'']),
                          (''Anthropic-Beta'', [''oauth-2025-04-20'']),
                          (''Content-Type'', [''application/json''])]\<rparr>
     \<in> set (snd (fetchModelsFromAnthropic example_env example_handler (fixed_clock 0)))
   \<and> GetAccessToken (tokenProvider example_handler) = Inr ''tok''
   \<and> Header_Get ''Authorization''
        [(''Authorization'', [''Bearer tok'']),
         (''Anthropic-Version'', [''2023-06-01'']),
         (''Anthropic-Beta'', [''oauth-2025-04-20'']),
         (''Content-Type'', [''application/json''])] = ''Bearer tok''
   \<and> Header_Get ''anthropic-version''
        [(''Authorization'', [''Bearer tok'']),
         (''Anthropic-Version'', [''2023-06-01'']),
         (''Anthropic-Beta'', [''oauth-2025-04-20'']),
         (''Content-Type'', [''application/json''])] = ''2023-06-01''
   \<and> Header_Get ''anthropic-beta''
        [(''Authorization'', [''Bearer tok'']),
         (''Anthropic-Version'', [''2023-06-01'']),
         (''Anthropic-Beta'', [''oauth-2025-04-20'']),
         (''Content-Type'', [''application/json''])] = ''oauth-2025-04-20''"
proof -
  let ?req = "\<lparr>u_method = ''GET'', u_url = ''https://api.anthropic.com/v1/models'',
              u_header = [(''Authorization'', [''Bearer tok'']),
                          (''Anthropic-Version'', [''2023-06-01'']),
                          (''Anthropic-Beta'', [''oauth-2025-04-20'']),
                          (''Content-Type'', [''application/json''])]\<rparr>"
  have m: "CallDo ?req \<in> set (snd (fetchModelsFromAnthropic example_env example_handler (fixed_clock 0)))"
    by (simp add: fetchModelsFromAnthropic_def example_env_def example_handler_def refusing_client_def
          NewRequest_def Header_Set_def canonical_keys Let_def)
  have t: "GetAccessToken (tokenProvider example_handler) = Inr ''tok''"
    by (simp add: example_handler_def)
  from C7_upstream_request_headers [OF m] t m show ?thesis
    by auto
qed

lemma string_id_assert:
  "string_id item =
     (case assert_map item of Some m \<Rightarrow> assert_string (index m ''id'') | None \<Rightarrow> None)"
proof (cases item)
  case (GMap m)
  show ?thesis
  proof (cases "map_of m ''id''")
    case None
    with GMap show ?thesis by (simp add: string_id_def index_def)
  next
    case (Some v)
    with GMap show ?thesis by (cases v) (simp_all add: string_id_def index_def)
  qed
qed (simp_all add: string_id_def)

lemma string_ids_Nil [simp]: "string_ids [] = []"
  by (simp add: string_ids_def map_filter_simps)

lemma string_ids_Cons:
  "string_ids (item # rest) =
     (case string_id item of None \<Rightarrow> string_ids rest | Some s \<Rightarrow> s # string_ids rest)"
  by (cases "string_id item") (simp_all add: string_ids_def map_filter_simps)

lemma elems_None: "elems None = []"
  by (simp add: elems_def)

lemma elems_append_go [simp]: "elems (append_go s x) = elems s @ [x]"
  by (simp add: append_go_def elems_def)

lemma perm_fields_model_id:
  "perm_fields (model mid c (permission pc pid)) ''id'' = [GString pid]"
  by (simp add: perm_fields_def field_model field_permission_id_created)

lemma convert_loop_ids:
  "map (\<lambda>e. field e ''id'') (elems (convert_loop clk n acc data)) =
     map (\<lambda>e. field e ''id'') (elems acc) @ map GString (string_ids data)"
proof (induction data arbitrary: n acc)
  case Nil
  show ?case by simp
next
  case (Cons item rest)
  show ?case
  proof (cases "string_id item")
    case None
    then show ?thesis
      using Cons.IH [of n acc]
      by (auto simp: string_ids_Cons string_id_assert split: option.splits)
  next
    case (Some s)
    then obtain m where m: "assert_map item = Some m" "assert_string (index m ''id'') = Some s"
      by (auto simp: string_id_assert split: option.splits)
    show ?thesis
      using Some m
        Cons.IH [of "n + 2" "append_go acc (model s (clk n) (permission (clk (n + 1)) (''modelperm-'' @ s)))"]
      by (simp add: string_ids_Cons field_model)
  qed
qed

lemma convert_loop_perm_ids:
  "map (\<lambda>e. perm_fields e ''id'') (elems (convert_loop clk n acc data)) =
     map (\<lambda>e. perm_fields e ''id'') (elems acc)
       @ map (\<lambda>i. [GString (''modelperm-'' @ i)]) (string_ids data)"
proof (induction data arbitrary: n acc)
  case Nil
  show ?case by simp
next
  case (Cons item rest)
  show ?case
  proof (cases "string_id item")
    case None
    then show ?thesis
      using Cons.IH [of n acc]
      by (auto simp: string_ids_Cons string_id_assert split: option.splits)
  next
    case (Some s)
    then obtain m where m: "assert_map item = Some m" "assert_string (index m ''id'') = Some s"
      by (auto simp: string_id_assert split: option.splits)
    show ?thesis
      using Some m
        Cons.IH [of "n + 2" "append_go acc (model s (clk n) (permission (clk (n + 1)) (''modelperm-'' @ s)))"]
      by (simp add: string_ids_Cons perm_fields_model_id)
  qed
qed

lemma assert_slice_slice_value [simp]: "assert_slice (slice_value s) = Some (elems s)"
  by (cases s) (simp_all add: slice_value_def elems_def)

lemma index_Nil: "index [] k = GNil"
  by (simp add: index_def)

lemma index_Cons: "index ((k, v) # m) k' = (if k = k' then v else index m k')"
  by (simp add: index_def)

lemma index_update: "index (AList.update k v m) k' = (if k' = k then v else index m k')"
  by (simp add: index_def update_conv')

lemma convert_data_slice:
  assumes "assert_slice (index resp ''data'') = Some data"
  shows "index (convertAnthropicModelsToOpenAI h clk resp) ''data''
           = slice_value (convert_loop clk 0 None data)"
  using assms by (simp add: convertAnthropicModelsToOpenAI_def index_update index_Cons index_Nil)

lemma convert_data_other:
  assumes "assert_slice (index resp ''data'') = None"
  shows "index (convertAnthropicModelsToOpenAI h clk resp) ''data'' = GSlice []"
  using assms by (simp add: convertAnthropicModelsToOpenAI_def index_update index_Cons index_Nil)

lemma convert_object:
  "index (convertAnthropicModelsToOpenAI h clk resp) ''object'' = GString ''list''"
  by (cases "assert_slice (index resp ''data'')")
     (simp_all add: convertAnthropicModelsToOpenAI_def index_update index_Cons index_Nil)

text \<open>
  Claim C8. For every input map, \<open>convertAnthropicModelsToOpenAI\<close> returns a map
  whose \<open>object\<close> is \<open>list\<close>. When the input's \<open>data\<close> is an array, the result's
  \<open>data\<close> is an array with exactly one entry, in input order, for each input
  element that is an object with a string \<open>id\<close>: the entry keeps that id and its
  permission id is \<open>modelperm-\<close> followed by the id; other elements contribute
  nothing. When the input's \<open>data\<close> is missing or not an array, the result's
  \<open>data\<close> is the empty array.
\<close>

theorem C8_convert_keeps_string_ids_in_order:
  "index (convertAnthropicModelsToOpenAI h clk resp) ''object'' = GString ''list''
   \<and> (assert_slice (index resp ''data'') = Some data \<longrightarrow>
        assert_slice (index (convertAnthropicModelsToOpenAI h clk resp) ''data'')
          = Some (entries (convertAnthropicModelsToOpenAI h clk resp))
        \<and> length (entries (convertAnthropicModelsToOpenAI h clk resp)) = length (string_ids data)
        \<and> map (\<lambda>e. field e ''id'') (entries (convertAnthropicModelsToOpenAI h clk resp))
            = map GString (string_ids data)
        \<and> map (\<lambda>e. perm_fields e ''id'') (entries (convertAnthropicModelsToOpenAI h clk resp))
            = map (\<lambda>i. [GString (''modelperm-'' @ i)]) (string_ids data))
   \<and> (assert_slice (index resp ''data'') = None \<longrightarrow>
        index (convertAnthropicModelsToOpenAI h clk resp) ''data'' = GSlice []
        \<and> entries (convertAnthropicModelsToOpenAI h clk resp) = [])"
proof -
  have other: "entries (convertAnthropicModelsToOpenAI h clk resp) = []"
      "index (convertAnthropicModelsToOpenAI h clk resp) ''data'' = GSlice []"
    if "assert_slice (index resp ''data'') = None"
    using convert_data_other [OF that] by (simp_all add: entries_def)
  have slice: "assert_slice (index (convertAnthropicModelsToOpenAI h clk resp) ''data'')
          = Some (entries (convertAnthropicModelsToOpenAI h clk resp))"
      "map (\<lambda>e. field e ''id'') (entries (convertAnthropicModelsToOpenAI h clk resp))
            = map GString (string_ids data)"
      "map (\<lambda>e. perm_fields e ''id'') (entries (convertAnthropicModelsToOpenAI h clk resp))
            = map (\<lambda>i. [GString (''modelperm-'' @ i)]) (string_ids data)"
    if d: "assert_slice (index resp ''data'') = Some data"
  proof -
    have e: "entries (convertAnthropicModelsToOpenAI h clk resp) = elems (convert_loop clk 0 None data)"
      by (simp add: entries_def slice_elems_def convert_data_slice [OF d])
    show "assert_slice (index (convertAnthropicModelsToOpenAI h clk resp) ''data'')
          = Some (entries (convertAnthropicModelsToOpenAI h clk resp))"
      by (simp add: e convert_data_slice [OF d])
    show "map (\<lambda>e. field e ''id'') (entries (convertAnthropicModelsToOpenAI h clk resp))
            = map GString (string_ids data)"
      by (simp add: e convert_loop_ids elems_None)
    show "map (\<lambda>e. perm_fields e ''id'') (entries (convertAnthropicModelsToOpenAI h clk resp))
            = map (\<lambda>i. [GString (''modelperm-'' @ i)]) (string_ids data)"
      by (simp add: e convert_loop_perm_ids elems_None)
  qed
  have len: "length (entries (convertAnthropicModelsToOpenAI h clk resp)) = length (string_ids data)"
    if d: "assert_slice (index resp ''data'') = Some data"
    using arg_cong [OF slice(2) [OF d], of length] by simp
  show ?thesis
    using convert_object other slice len by simp
qed

theorem C8_convert_keeps_string_ids_in_order_witness:
  "assert_slice (index example_response ''data'')
     = Some [GMap [(''id'', GString ''claude-a''), (''type'', GString ''model'')],
             GString ''stray'',
             GMap [(''id'', GInt 7)],
             GMap [(''display_name'', GString ''B''), (''id'', GString ''claude-b'')]]
   \<and> assert_slice (index example_response_no_data ''data'') = None
   \<and> map (\<lambda>e. field e ''id'')
        (entries (convertAnthropicModelsToOpenAI example_handler (fixed_clock 0) example_response))
       = [GString ''claude-a'', GString ''claude-b'']
   \<and> map (\<lambda>e. perm_fields e ''id'')
        (entries (convertAnthropicModelsToOpenAI example_handler (fixed_clock 0) example_response))
       = [[GString ''modelperm-claude-a''], [GString ''modelperm-claude-b'']]
   \<and> index (convertAnthropicModelsToOpenAI example_handler (fixed_clock 0) example_response_no_data) ''data''
       = GSlice []"
proof -
  let ?data = "[GMap [(''id'', GString ''claude-a''), (''type'', GString ''model'')],
             GString ''stray'',
             GMap [(''id'', GInt 7)],
             GMap [(''display_name'', GString ''B''), (''id'', GString ''claude-b'')]]"
  have d: "assert_slice (index example_response ''data'') = Some ?data"
    by (simp add: example_response_def index_def)
  have n: "assert_slice (index example_response_no_data ''data'') = None"
    by (simp add: example_response_no_data_def index_def)
  have i: "string_ids ?data = [''claude-a'', ''claude-b'']"
    by (simp add: string_ids_Cons string_id_def)
  from C8_convert_keeps_string_ids_in_order [of example_handler "fixed_clock 0" example_response ?data]
       C8_convert_keeps_string_ids_in_order [of example_handler "fixed_clock 0" example_response_no_data ?data]
       d n i
  show ?thesis by simp
qed

section \<open>Properties of the confirmation prompts\<close>

text \<open>
  Claim C9. For both \<open>ConfirmModel.Update\<close> and \<open>ConfirmDefaultModel.Update\<close>: a key
  message \<open>ctrl+c\<close> or \<open>esc\<close> yields a model with \<open>answer = false\<close> and
  \<open>answered = true\<close>, whatever the default is; every message that is not one of
  the handled key messages (\<open>y Y n N ctrl+c esc\<close>, and \<open>enter\<close> for the model
  with a default) returns the model unchanged with a nil command.
\<close>

theorem C9_update_cancel_and_unhandled:
  "(k \<in> {''ctrl+c'', ''esc''} \<longrightarrow>
      answer (fst (Update m (KeyMsg k))) = False \<and> answered (fst (Update m (KeyMsg k))) = True \<and>
      answer (fst (UpdateDefault d (KeyMsg k))) = False \<and>
      answered (fst (UpdateDefault d (KeyMsg k))) = True)
   \<and> ((\<forall>s. msg = KeyMsg s \<longrightarrow> s \<notin> {''y'', ''Y'', ''n'', ''N'', ''ctrl+c'', ''esc''})
        \<longrightarrow> Update m msg = (m, None))
   \<and> ((\<forall>s. msg = KeyMsg s \<longrightarrow> s \<notin> {''y'', ''Y'', ''n'', ''N'', ''enter'', ''ctrl+c'', ''esc''})
        \<longrightarrow> UpdateDefault d msg = (d, None))"
  by (cases msg) auto

theorem C9_update_cancel_and_unhandled_witness:
  "''esc'' \<in> {''ctrl+c'', ''esc''}
   \<and> ''x'' \<notin> {''y'', ''Y'', ''n'', ''N'', ''enter'', ''ctrl+c'', ''esc''}
   \<and> answer (fst (Update \<lparr>question = ''ok?'', answer = True, answered = False\<rparr> (KeyMsg ''esc''))) = False
   \<and> answered (fst (UpdateDefault
         \<lparr>question = ''ok?'', answer = True, answered = False, defaultYes = True\<rparr> (KeyMsg ''esc''))) = True
   \<and> answer (fst (UpdateDefault
         \<lparr>question = ''ok?'', answer = True, answered = False, defaultYes = True\<rparr> (KeyMsg ''esc''))) = False
   \<and> Update \<lparr>question = ''ok?'', answer = True, answered = False\<rparr> (KeyMsg ''x'')
       = (\<lparr>question = ''ok?'', answer = True, answered = False\<rparr>, None)
   \<and> UpdateDefault \<lparr>question = ''ok?'', answer = True, answered = False, defaultYes = True\<rparr> (KeyMsg ''x'')
       = (\<lparr>question = ''ok?'', answer = True, answered = False, defaultYes = True\<rparr>, None)"
  using C9_update_cancel_and_unhandled
    [of "''esc''" "\<lparr>question = ''ok?'', answer = True, answered = False\<rparr>"
        "\<lparr>question = ''ok?'', answer = True, answered = False, defaultYes = True\<rparr>" "KeyMsg ''x''"]
  by simp

text \<open>
  Claim C10. \<open>confirmNonInteractive(question, defaultYes)\<close> returns true when the
  string read by \<open>Scanln\<close> is one of \<open>y Y yes Yes YES\<close>, false when it is one of
  \<open>n N no No NO\<close>, and \<open>defaultYes\<close> for every other string and whenever the read
  fails.
\<close>

theorem C10_confirmNonInteractive_result:
  "(ry \<in> {''y'', ''Y'', ''yes'', ''Yes'', ''YES''} \<longrightarrow>
      snd (confirmNonInteractive q dflt (Inr ry)) = True)
   \<and> (rn \<in> {''n'', ''N'', ''no'', ''No'', ''NO''} \<longrightarrow>
      snd (confirmNonInteractive q dflt (Inr rn)) = False)
   \<and> (ro \<notin> {''y'', ''Y'', ''yes'', ''Yes'', ''YES'', ''n'', ''N'', ''no'', ''No'', ''NO''} \<longrightarrow>
      snd (confirmNonInteractive q dflt (Inr ro)) = dflt)
   \<and> snd (confirmNonInteractive q dflt (Inl e)) = dflt"
  by (auto simp: confirmNonInteractive_def Let_def)

theorem C10_confirmNonInteractive_result_witness:
  "''Yes'' \<in> {''y'', ''Y'', ''yes'', ''Yes'', ''YES''}
   \<and> ''NO'' \<in> {''n'', ''N'', ''no'', ''No'', ''NO''}
   \<and> ''maybe'' \<notin> {''y'', ''Y'', ''yes'', ''Yes'', ''YES'', ''n'', ''N'', ''no'', ''No'', ''NO''}
   \<and> snd (confirmNonInteractive ''Proceed?'' False (Inr ''Yes'')) = True
   \<and> snd (confirmNonInteractive ''Proceed?'' True (Inr ''NO'')) = False
   \<and> snd (confirmNonInteractive ''Proceed?'' True (Inr ''maybe'')) = True
   \<and> snd (confirmNonInteractive ''Proceed?'' True (Inl ''unexpected newline'')) = True"
  using C10_confirmNonInteractive_result [of "''Yes''" "''Proceed?''" False "''NO''" "''maybe''" "''EOF''"]
        C10_confirmNonInteractive_result [of "''Yes''" "''Proceed?''" True "''NO''" "''maybe''" "''unexpected newline''"]
  by simp

end
